theory Spec2Isabelle
  imports Main
begin

section \<open>Syntax-tree nodes of a highlighted code block\<close>

text \<open>
  The two visitor callbacks of \<^verbatim>\<open>contentlayer.config.ts\<close> receive the element node of one
  code-block line. The callbacks read and write two things of it: \<^verbatim>\<open>node.children\<close>
  (an array of child nodes) and \<^verbatim>\<open>node.properties.className\<close> (an array of class names,
  or \<^verbatim>\<open>undefined\<close> when the property is absent, which is \<open>None\<close> here).
\<close>

datatype hast_node =
    Text string
  | Element string "string list option" "hast_node list"

record hast_properties =
  className :: "string list option"

record hast_element =
  tagName :: string
  properties :: hast_properties
  children :: "hast_node list"

text \<open>
  \<^verbatim>\<open>
  onVisitLine(node: any) {
    if (node.children.length === 0) {
      node.children = [{ type: "text", value: " " }];
    }
    node.properties.className = ["line"];
  }
  \<close>
  The mutation of the node is explicit state passing: the visitor returns the node it
  leaves behind. The array literal is a fresh array at every call, so no two nodes share
  a class list.
\<close>

definition onVisitLine :: "hast_element \<Rightarrow> hast_element" where
  "onVisitLine node =
     (let node1 = (if length (children node) = 0
                   then node\<lparr>children := [Text '' '']\<rparr>
                   else node)
      in node1\<lparr>properties := (properties node1)\<lparr>className := Some [''line'']\<rparr>\<rparr>)"

text \<open>
  The test of the conditional in \<^verbatim>\<open>onVisitHighlightedLine\<close>,
  \<^verbatim>\<open>nodeClass && nodeClass.length > 0\<close>: \<^verbatim>\<open>undefined\<close> is falsy, an array is truthy.
\<close>

definition nodeClassNonEmpty :: "string list option \<Rightarrow> bool" where
  "nodeClassNonEmpty nodeClass =
     (case nodeClass of None \<Rightarrow> False | Some cs \<Rightarrow> length cs > 0)"

text \<open>
  \<^verbatim>\<open>
  onVisitHighlightedLine(node: any) {
    const nodeClass = node.properties.className;
    if (nodeClass && nodeClass.length > 0) {
      node.properties.className.push("line--highlighted");
    } else {
      node.properties.className = ["line--highlighted"];
    }
  }
  \<close>
  \<^verbatim>\<open>push\<close> appends at the end of the array, in place.
\<close>

definition onVisitHighlightedLine :: "hast_element \<Rightarrow> hast_element" where
  "onVisitHighlightedLine node =
     (let nodeClass = className (properties node)
      in if nodeClassNonEmpty nodeClass
         then node\<lparr>properties := (properties node)
                 \<lparr>className := Some (the nodeClass @ [''line--highlighted''])\<rparr>\<rparr>
         else node\<lparr>properties := (properties node)
                 \<lparr>className := Some [''line--highlighted'']\<rparr>\<rparr>)"

text \<open>
  The class list a node renders with: the entries of \<^verbatim>\<open>className\<close>, none when the
  property is absent.
\<close>

definition classList :: "hast_element \<Rightarrow> string list" where
  "classList node = (case className (properties node) of None \<Rightarrow> [] | Some cs \<Rightarrow> cs)"

text \<open>
  The text a node renders: the value of a text node, and for an element the texts of
  its children, in order. The rendered content of a line is the text of its children.
\<close>

fun nodeText :: "hast_node \<Rightarrow> string" where
  "nodeText (Text v) = v"
| "nodeText (Element t c ks) = concat (map nodeText ks)"

definition lineText :: "hast_element \<Rightarrow> string" where
  "lineText node = concat (map nodeText (children node))"

section \<open>The base URL of the site\<close>

text \<open>
  The values the expression of \<^verbatim>\<open>BASE_URL\<close> in \<^verbatim>\<open>lib/metadata.ts\<close> computes with:
  \<^verbatim>\<open>undefined\<close>, strings and the number literal \<^verbatim>\<open>3000\<close>.
\<close>

datatype js_value = Undefined | Str string | Num nat

text \<open>JavaScript truthiness: \<^verbatim>\<open>undefined\<close>, the empty string and \<^verbatim>\<open>0\<close> are falsy.\<close>

fun truthy :: "js_value \<Rightarrow> bool" where
  "truthy Undefined = False"
| "truthy (Str s) = (s \<noteq> [])"
| "truthy (Num n) = (n \<noteq> 0)"

text \<open>\<^verbatim>\<open>a || b\<close> is \<^verbatim>\<open>a\<close> when \<^verbatim>\<open>a\<close> is truthy and \<^verbatim>\<open>b\<close> otherwise.\<close>

definition js_or :: "js_value \<Rightarrow> js_value \<Rightarrow> js_value" where
  "js_or a b = (if truthy a then a else b)"

fun showNat :: "nat \<Rightarrow> string" where
  "showNat n =
     (if n < 10 then [char_of (48 + n)]
      else showNat (n div 10) @ [char_of (48 + n mod 10)])"

text \<open>The string a value contributes to a template literal.\<close>

fun toString :: "js_value \<Rightarrow> string" where
  "toString Undefined = ''undefined''"
| "toString (Str s) = s"
| "toString (Num n) = showNat n"

text \<open>
  \<^verbatim>\<open>process.env\<close> maps variable names to strings; reading an unset variable gives
  \<^verbatim>\<open>undefined\<close>.
\<close>

type_synonym process_env = "string \<rightharpoonup> string"

definition env_get :: "process_env \<Rightarrow> string \<Rightarrow> js_value" where
  "env_get env name = (case env name of None \<Rightarrow> Undefined | Some v \<Rightarrow> Str v)"

text \<open>
  \<^verbatim>\<open>
  export const BASE_URL =
    `https://${process.env.VERCEL_URL}` ||
    process.env.NEXT_PUBLIC_BASE_URL ||
    `http://localhost:${process.env.PORT || 3000}`;
  \<close>
  \<^verbatim>\<open>||\<close> associates to the left.
\<close>

definition BASE_URL :: "process_env \<Rightarrow> js_value" where
  "BASE_URL env =
     js_or
       (js_or (Str (''https://'' @ toString (env_get env ''VERCEL_URL'')))
              (env_get env ''NEXT_PUBLIC_BASE_URL''))
       (Str (''http://localhost:'' @ toString (js_or (env_get env ''PORT'') (Num 3000))))"

section \<open>The content source configuration\<close>

text \<open>
  \<^verbatim>\<open>export const HEADING_LINK_ANCHOR = `anchor-heading-link`;\<close>
\<close>

definition HEADING_LINK_ANCHOR :: string where
  "HEADING_LINK_ANCHOR = ''anchor-heading-link''"

text \<open>
  The plugins the configuration names, each with the options it is given there:
  the autolink plugin with \<^verbatim>\<open>behavior\<close> and \<^verbatim>\<open>properties.className\<close>, the code
  highlighter with \<^verbatim>\<open>theme\<close> and the two line visitors.
\<close>

datatype plugin =
    RemarkGfm
  | RemarkMath
  | RehypeKatex
  | RehypeSlug
  | RehypeAutolinkHeadings string "string list"
  | RehypePrettyCode string "hast_element \<Rightarrow> hast_element" "hast_element \<Rightarrow> hast_element"

record mdx_options =
  remarkPlugins :: "plugin list"
  rehypePlugins :: "plugin list"

text \<open>
  \<^verbatim>\<open>
  mdx: {
    remarkPlugins: [[remarkGfm], [remarkMath]],
    rehypePlugins: [
      rehypeKatex,
      rehypeSlug,
      [rehypeAutolinkHeadings,
       { behavior: "wrap", properties: { className: [HEADING_LINK_ANCHOR] } }],
      [rehypePrettyCode,
       { theme: "github-dark", onVisitLine(node) {...}, onVisitHighlightedLine(node) {...} }],
    ],
  }
  \<close>
  (\<^verbatim>\<open>esbuildOptions\<close> sets the target of the bundler and names no transform step.)
\<close>

definition mdx :: mdx_options where
  "mdx =
     \<lparr>remarkPlugins = [RemarkGfm, RemarkMath],
      rehypePlugins =
        [RehypeKatex,
         RehypeSlug,
         RehypeAutolinkHeadings ''wrap'' [HEADING_LINK_ANCHOR],
         RehypePrettyCode ''github-dark'' onVisitLine onVisitHighlightedLine]\<rparr>"

text \<open>Sequencing of fallible steps: the first error ends the run.\<close>

definition and_then :: "'e + 'a \<Rightarrow> ('a \<Rightarrow> 'e + 'b) \<Rightarrow> 'e + 'b" where
  "and_then r f = (case r of Inl e \<Rightarrow> Inl e | Inr x \<Rightarrow> f x)"

text \<open>
  Modelled from the spec: the processor that runs the plugins on a document body. It is
  part of the packages the configuration is handed to (contentlayer and the unified
  processor under it), not of the repository's sources. The spec, section 4.2: "apply,
  in fixed order, a sequence of syntax-tree rewriters to each document's body", steps
  a and b being the grammar extensions and the math recognition (the remark list) and
  steps c to f the math rendering, the heading ids, the heading links and the code
  highlighting (the rehype list); "each step receives the tree produced by the previous
  step; a step that throws aborts the build for that document". What a plugin does to a
  tree is the parameter \<open>step\<close>.
\<close>

definition transformChain :: "mdx_options \<Rightarrow> plugin list" where
  "transformChain opts = remarkPlugins opts @ rehypePlugins opts"

fun runChain :: "(plugin \<Rightarrow> 'tree \<Rightarrow> 'e + 'tree) \<Rightarrow> plugin list \<Rightarrow> 'tree \<Rightarrow> 'e + 'tree" where
  "runChain step [] tree = Inr tree"
| "runChain step (p # ps) tree = and_then (step p tree) (runChain step ps)"

text \<open>
  An instance of \<open>step\<close> that records the name of each plugin it runs at the end of
  the tree, for evaluating the chain on a concrete tree.
\<close>

fun pluginName :: "plugin \<Rightarrow> string" where
  "pluginName RemarkGfm = ''remark-gfm''"
| "pluginName RemarkMath = ''remark-math''"
| "pluginName RehypeKatex = ''rehype-katex''"
| "pluginName RehypeSlug = ''rehype-slug''"
| "pluginName (RehypeAutolinkHeadings b c) = ''rehype-autolink-headings''"
| "pluginName (RehypePrettyCode t l h) = ''rehype-pretty-code''"

definition recordStep :: "plugin \<Rightarrow> string list \<Rightarrow> unit + string list" where
  "recordStep p tree = Inr (tree @ [pluginName p])"

section \<open>The build-completion hook\<close>

text \<open>What \<^verbatim>\<open>await data()\<close> resolves to: the generated collections, of which the hook
  reads \<^verbatim>\<open>allDocuments\<close>.\<close>

record 'd build_data =
  allDocuments :: "'d list"

text \<open>
  \<^verbatim>\<open>
  onSuccess: async (data) => {
    const { allDocuments } = await data();
    console.log("allDocuments", allDocuments.length);
  }
  \<close>
  The console is the list of the lines logged so far, each line the list of the
  arguments of its \<^verbatim>\<open>console.log\<close>. A rejected \<^verbatim>\<open>data()\<close> rejects the hook.
\<close>

definition onSuccess ::
  "(unit \<Rightarrow> 'e + 'd build_data) \<Rightarrow> js_value list list \<Rightarrow> 'e + js_value list list" where
  "onSuccess data console =
     (case data () of
        Inl e \<Rightarrow> Inl e
      | Inr r \<Rightarrow>
          Inr (console @ [[Str ''allDocuments'', Num (length (allDocuments r))]]))"

text \<open>
  Modelled from the spec: the build driver that loads the content files and calls the
  hook. It is part of the contentlayer package, not of the repository's sources. The
  spec, sections 4.2 and 4.3: every document is loaded and transformed, a failed
  document aborts the build, and "after all documents are loaded and transformed" the
  driver is to "invoke a single callback with access to the full document collection"
  , "invoked exactly once per build". Loading and transforming one file is the
  parameter \<open>process\<close>.
\<close>

fun processAll :: "('f \<Rightarrow> 'e + 'd) \<Rightarrow> 'f list \<Rightarrow> 'e + 'd list" where
  "processAll process [] = Inr []"
| "processAll process (f # fs) =
     and_then (process f) (\<lambda>d. and_then (processAll process fs) (\<lambda>ds. Inr (d # ds)))"

definition build ::
  "('f \<Rightarrow> 'e + 'd) \<Rightarrow> 'f list \<Rightarrow> js_value list list \<Rightarrow> 'e + ('d list \<times> js_value list list)" where
  "build process files console =
     and_then (processAll process files)
       (\<lambda>docs. and_then (onSuccess (\<lambda>_. Inr \<lparr>allDocuments = docs\<rparr>) console)
          (\<lambda>console'. Inr (docs, console')))"

section \<open>The line visitors\<close>

lemma onVisitLine_className:
  "className (properties (onVisitLine node)) = Some [''line'']"
  by (simp add: onVisitLine_def Let_def)


lemma onVisitLine_children:
  "children (onVisitLine node) =
     (if children node = [] then [Text '' ''] else children node)"
  by (simp add: onVisitLine_def Let_def)


lemma onVisitHighlightedLine_classList:
  "classList (onVisitHighlightedLine node) = classList node @ [''line--highlighted'']"
  by (cases "className (properties node)")
     (simp_all add: onVisitHighlightedLine_def classList_def nodeClassNonEmpty_def Let_def)




text \<open>
  The test of the line visitor is on the number of children, not on what they render:
  a child list that is non-empty and renders nothing is left as it is.
\<close>

lemma onVisitLine_keeps_empty_token:
  "lineText (onVisitLine
      \<lparr>tagName = ''span'', properties = \<lparr>className = None\<rparr>, children = [Text []]\<rparr>)
     = []"
  by (simp add: lineText_def onVisitLine_children)



text \<open>
  C2. For a line flagged for emphasis, the class list after the line visitor and the
  highlighted-line visitor is the class list of the unflagged line with
  \<open>line--highlighted\<close> added at its end; so every class of the unflagged line is kept.
  The highlighted-line visitor keeps the classes of any node it is given.
\<close>

theorem highlighted_classes_superset:
  "classList (onVisitHighlightedLine (onVisitLine node))
     = classList (onVisitLine node) @ [''line--highlighted'']
   \<and> set (classList (onVisitLine node))
       \<subseteq> set (classList (onVisitHighlightedLine (onVisitLine node)))
   \<and> classList (onVisitHighlightedLine other)
       = classList other @ [''line--highlighted'']"
  by (auto simp add: onVisitHighlightedLine_classList)

theorem highlighted_classes_superset_witness:
  "classList (onVisitHighlightedLine (onVisitLine
      \<lparr>tagName = ''span'', properties = \<lparr>className = Some [''old'']\<rparr>,
       children = [Text ''x'']\<rparr>))
     = [''line'', ''line--highlighted'']
   \<and> classList (onVisitHighlightedLine
      \<lparr>tagName = ''span'', properties = \<lparr>className = Some [''old'']\<rparr>,
       children = [Text ''x'']\<rparr>)
     = [''old'', ''line--highlighted'']"
  using highlighted_classes_superset
    [of "\<lparr>tagName = ''span'', properties = \<lparr>className = Some [''old'']\<rparr>,
          children = [Text ''x'']\<rparr>"
        "\<lparr>tagName = ''span'', properties = \<lparr>className = Some [''old'']\<rparr>,
          children = [Text ''x'']\<rparr>"]
  by (simp add: classList_def onVisitLine_def Let_def)

text \<open>
  C9. The line visitor sets the class list to exactly \<open>[line]\<close>, whatever it was. On
  the node it leaves, the test of the highlighted-line visitor holds, so the visitor
  takes the branch that appends, and the class list of a highlighted line is exactly
  \<open>[line, line--highlighted]\<close>.
\<close>

theorem highlighted_fallback_not_taken:
  "className (properties (onVisitLine node)) = Some [''line'']
   \<and> nodeClassNonEmpty (className (properties (onVisitLine node)))
   \<and> className (properties (onVisitHighlightedLine (onVisitLine node)))
       = Some [''line'', ''line--highlighted'']"
  by (simp add: onVisitLine_className onVisitHighlightedLine_def nodeClassNonEmpty_def Let_def)

theorem highlighted_fallback_not_taken_witness:
  "className (properties (onVisitHighlightedLine (onVisitLine
      \<lparr>tagName = ''span'', properties = \<lparr>className = None\<rparr>, children = []\<rparr>)))
     = Some [''line'', ''line--highlighted'']
   \<and> className (properties (onVisitHighlightedLine
      \<lparr>tagName = ''span'', properties = \<lparr>className = None\<rparr>, children = []\<rparr>))
     = Some [''line--highlighted'']"
  using highlighted_fallback_not_taken
    [of "\<lparr>tagName = ''span'', properties = \<lparr>className = None\<rparr>, children = []\<rparr>"]
  by (simp add: onVisitHighlightedLine_def nodeClassNonEmpty_def Let_def)

section \<open>The base URL\<close>

text \<open>
  C10. In every environment \<^verbatim>\<open>BASE_URL\<close> is \<open>https://\<close> followed by the value of
  \<^verbatim>\<open>VERCEL_URL\<close>, or by \<open>undefined\<close> when the variable is unset; the values of
  \<^verbatim>\<open>NEXT_PUBLIC_BASE_URL\<close> and \<^verbatim>\<open>PORT\<close> never reach the result.
\<close>

theorem BASE_URL_is_vercel_url:
  "BASE_URL env =
     Str (''https://'' @ (case env ''VERCEL_URL'' of None \<Rightarrow> ''undefined'' | Some v \<Rightarrow> v))
   \<and> BASE_URL (env(''NEXT_PUBLIC_BASE_URL'' := u, ''PORT'' := p)) = BASE_URL env"
  by (simp add: BASE_URL_def js_or_def env_get_def split: option.split)

theorem BASE_URL_is_vercel_url_witness:
  "BASE_URL [''NEXT_PUBLIC_BASE_URL'' \<mapsto> ''https://example.com'', ''PORT'' \<mapsto> ''8080'']
     = Str ''https://undefined''
   \<and> BASE_URL [''VERCEL_URL'' \<mapsto> ''site.vercel.app''] = Str ''https://site.vercel.app''"
  using BASE_URL_is_vercel_url
    [of "[''NEXT_PUBLIC_BASE_URL'' \<mapsto> ''https://example.com'', ''PORT'' \<mapsto> ''8080'']"]
    BASE_URL_is_vercel_url [of "[''VERCEL_URL'' \<mapsto> ''site.vercel.app'']"]
  by simp

section \<open>The transform chain\<close>

text \<open>
  C3. The chain of the configuration is, in this order, the grammar extensions, the
  math recognition, the math rendering, the heading ids, the heading links and the
  code highlighting. Running it on a tree gives the first step the tree, and every
  later step the tree the step before it returned; the chain is a constant of the
  configuration, the same for every tree and every behaviour of the steps.
\<close>

theorem transform_order_fixed:
  "transformChain mdx =
     [RemarkGfm, RemarkMath, RehypeKatex, RehypeSlug,
      RehypeAutolinkHeadings ''wrap'' [''anchor-heading-link''],
      RehypePrettyCode ''github-dark'' onVisitLine onVisitHighlightedLine]
   \<and> runChain step (transformChain mdx) tree =
       and_then (step RemarkGfm tree) (\<lambda>t1.
       and_then (step RemarkMath t1) (\<lambda>t2.
       and_then (step RehypeKatex t2) (\<lambda>t3.
       and_then (step RehypeSlug t3) (\<lambda>t4.
       and_then (step (RehypeAutolinkHeadings ''wrap'' [''anchor-heading-link'']) t4) (\<lambda>t5.
       step (RehypePrettyCode ''github-dark'' onVisitLine onVisitHighlightedLine) t5)))))"
  by (simp add: transformChain_def mdx_def HEADING_LINK_ANCHOR_def and_then_def
        split: sum.split)

theorem transform_order_fixed_witness:
  "runChain recordStep (transformChain mdx) [] =
     Inr [''remark-gfm'', ''remark-math'', ''rehype-katex'', ''rehype-slug'',
          ''rehype-autolink-headings'', ''rehype-pretty-code'']"
  using transform_order_fixed [of recordStep "[]"]
  by (simp add: recordStep_def and_then_def)

section \<open>The build-completion hook\<close>

lemma onSuccess_logs_count:
  "onSuccess (\<lambda>_. Inr \<lparr>allDocuments = docs\<rparr>) console =
     Inr (console @ [[Str ''allDocuments'', Num (length docs)]])"
  by (simp add: onSuccess_def)

lemma processAll_length:
  "processAll process files = Inr docs \<Longrightarrow> length docs = length files"
  by (induction files arbitrary: docs) (auto simp: and_then_def split: sum.splits)

text \<open>
  C5. A build completes exactly when every file is loaded and transformed; then the
  console holds the lines it held before and one more line, logged by the hook: the
  text \<open>allDocuments\<close> and the number of documents of the collection, one per file.
\<close>

theorem hook_logs_document_count_once:
  "build process files console = Inr (docs, console') \<longleftrightarrow>
     processAll process files = Inr docs
     \<and> console' = console @ [[Str ''allDocuments'', Num (length docs)]]
     \<and> length docs = length files"
  by (auto simp: build_def and_then_def onSuccess_logs_count processAll_length
        split: sum.splits)

theorem hook_logs_document_count_once_witness:
  "build (\<lambda>f. (Inr (f @ ''.json'') :: unit + string)) [''a.mdx'', ''b.mdx''] [] =
     Inr ([''a.mdx.json'', ''b.mdx.json''], [[Str ''allDocuments'', Num 2]])"
  using hook_logs_document_count_once
    [of "\<lambda>f. (Inr (f @ ''.json'') :: unit + string)" "[''a.mdx'', ''b.mdx'']" "[]"
        "[''a.mdx.json'', ''b.mdx.json'']" "[[Str ''allDocuments'', Num 2]]"]
  by (simp add: and_then_def)

end
